theory Spec2Isabelle
  imports Complex_Main "HOL-Library.Sublist"
begin

section \<open>Data model\<close>

text \<open>
  The two scripts \<^verbatim>\<open>scripts/rigorous_benchmark.py\<close> and
  \<^verbatim>\<open>scripts/rigorous_benchmark_demo.py\<close> share the dataclass
  \<^verbatim>\<open>BenchmarkResult\<close> (a name and a list of measurements) and the functions on it.
  The first part of this development idealises Python's \<^verbatim>\<open>float\<close> as \<^typ>\<open>real\<close>:
  every operation is exact. The part on double arithmetic models the same functions on
  IEEE 754 binary64 values, with rounding to nearest, overflow to infinity and NaN, for
  the two functions whose result depends on them (\<^verbatim>\<open>remove_outliers\<close> and
  \<^verbatim>\<open>validate_experiment\<close>). An exception raised by the Python code is a value
  \<open>Inl e\<close> of the result type \<open>error + 'a\<close>.
\<close>

datatype error =
    StatisticsError
  | ZeroDivisionError
  | CalledProcessError
  | IndexError
  | ValueError

record BenchmarkResult =
  name :: string
  measurements :: "real list"

section \<open>Descriptive statistics\<close>

text \<open>
  \<^verbatim>\<open>statistics.mean\<close> and \<^verbatim>\<open>statistics.stdev\<close> of the Python standard library: the
  arithmetic mean, which raises \<^verbatim>\<open>StatisticsError\<close> on an empty sequence, and the
  sample standard deviation with divisor \<open>n - 1\<close>, which raises \<^verbatim>\<open>StatisticsError\<close>
  on fewer than two data points.
\<close>

definition arith_mean :: "real list \<Rightarrow> real" where
  "arith_mean xs = sum_list xs / real (length xs)"

definition sum_sq_dev :: "real list \<Rightarrow> real" where
  "sum_sq_dev xs = (\<Sum>x\<leftarrow>xs. (x - arith_mean xs)\<^sup>2)"

definition sample_stdev :: "real list \<Rightarrow> real" where
  "sample_stdev xs = sqrt (sum_sq_dev xs / real (length xs - 1))"

definition statistics_mean :: "real list \<Rightarrow> error + real" where
  "statistics_mean xs = (if xs = [] then Inl StatisticsError else Inr (arith_mean xs))"

definition statistics_stdev :: "real list \<Rightarrow> error + real" where
  "statistics_stdev xs =
     (if length xs < 2 then Inl StatisticsError else Inr (sample_stdev xs))"

text \<open>The properties \<^verbatim>\<open>mean\<close>, \<^verbatim>\<open>stdev\<close> and \<^verbatim>\<open>cv\<close> of \<^verbatim>\<open>BenchmarkResult\<close>.\<close>

definition mean :: "BenchmarkResult \<Rightarrow> error + real" where
  "mean self = statistics_mean (measurements self)"

definition stdev :: "BenchmarkResult \<Rightarrow> error + real" where
  "stdev self = statistics_stdev (measurements self)"

text \<open>
  \<^verbatim>\<open>return 100.0 * self.stdev / self.mean if self.mean > 0 else 0.0\<close>: the condition is
  evaluated first, \<^verbatim>\<open>self.stdev\<close> only when it holds.
\<close>

definition cv :: "BenchmarkResult \<Rightarrow> error + real" where
  "cv self =
     (case mean self of
        Inl e \<Rightarrow> Inl e
      | Inr m \<Rightarrow>
          if m > 0 then
            (case stdev self of
               Inl e \<Rightarrow> Inl e
             | Inr s \<Rightarrow> Inr (100 * s / m))
          else Inr 0)"

section \<open>Confidence interval\<close>

text \<open>
  \<^verbatim>\<open>confidence_interval\<close> of \<^verbatim>\<open>rigorous_benchmark.py\<close>. The quantile function
  \<^verbatim>\<open>scipy.stats.t.ppf\<close> is a parameter \<open>t_ppf\<close>: its first argument is the cumulative
  probability, its second the degrees of freedom.
\<close>

definition confidence_interval ::
  "(real \<Rightarrow> real \<Rightarrow> real) \<Rightarrow> BenchmarkResult \<Rightarrow> real \<Rightarrow> error + (real \<times> real)" where
  "confidence_interval t_ppf self confidence =
     (let n = length (measurements self) in
      if n < 2 then
        (case mean self of Inl e \<Rightarrow> Inl e | Inr m \<Rightarrow> Inr (m, m))
      else
        (let t_value = t_ppf ((1 + confidence) / 2) (real (n - 1)) in
         case stdev self of
           Inl e \<Rightarrow> Inl e
         | Inr s \<Rightarrow>
             (let margin = t_value * s / sqrt (real n) in
              case mean self of
                Inl e \<Rightarrow> Inl e
              | Inr m \<Rightarrow> Inr (m - margin, m + margin))))"

text \<open>
  \<^verbatim>\<open>confidence_interval\<close> of \<^verbatim>\<open>rigorous_benchmark_demo.py\<close>: the same with the fixed
  \<open>z = 1.96\<close>; the argument \<^verbatim>\<open>confidence\<close> is not read.
\<close>

definition confidence_interval_demo :: "BenchmarkResult \<Rightarrow> real \<Rightarrow> error + (real \<times> real)" where
  "confidence_interval_demo self confidence =
     (let n = length (measurements self) in
      if n < 2 then
        (case mean self of Inl e \<Rightarrow> Inl e | Inr m \<Rightarrow> Inr (m, m))
      else
        (let z = 1.96 in
         case stdev self of
           Inl e \<Rightarrow> Inl e
         | Inr s \<Rightarrow>
             (let margin = z * s / sqrt (real n) in
              case mean self of
                Inl e \<Rightarrow> Inl e
              | Inr m \<Rightarrow> Inr (m - margin, m + margin))))"

section \<open>Console output\<close>

text \<open>
  What the functions print is kept as a list of the lines that carry data; the fixed
  banner lines and the number formatting are left out.
  \<^item> \<open>OutlierWarning nm pct\<close>: the two warning lines of \<^verbatim>\<open>remove_outliers\<close>;
  \<^item> \<open>StabilityLine ok nm c\<close> and \<open>PrecisionLine ok nm d\<close>: a status line of
    criterion 7.1 or 7.2 of \<^verbatim>\<open>validate_experiment\<close>;
  \<^item> \<open>Verdict ok\<close>: its closing line.
\<close>

datatype printed =
    OutlierWarning string real
  | StabilityLine bool string real
  | PrecisionLine bool string real
  | Verdict bool

section \<open>Outlier filter\<close>

text \<open>
  \<^verbatim>\<open>float / float\<close> of Python raises \<^verbatim>\<open>ZeroDivisionError\<close> on a zero divisor.
\<close>

definition py_div :: "real \<Rightarrow> real \<Rightarrow> error + real" where
  "py_div a b = (if b = 0 then Inl ZeroDivisionError else Inr (a / b))"

text \<open>
  \<^verbatim>\<open>remove_outliers\<close>: mean and standard deviation are read once, the list
  comprehension keeps the measurements within \<open>threshold * stdev\<close> of the mean, and the
  warning is printed when more than 5 percent were removed. The result is the new
  \<^verbatim>\<open>BenchmarkResult\<close> and the output.
\<close>

definition remove_outliers ::
  "BenchmarkResult \<Rightarrow> real \<Rightarrow> error + (BenchmarkResult \<times> printed list)" where
  "remove_outliers self threshold =
     (case mean self of
        Inl e \<Rightarrow> Inl e
      | Inr m \<Rightarrow>
     (case stdev self of
        Inl e \<Rightarrow> Inl e
      | Inr sd \<Rightarrow>
     (let filtered = filter (\<lambda>t. \<bar>t - m\<bar> \<le> threshold * sd) (measurements self);
          removed_count = int (length (measurements self)) - int (length filtered)
      in
      case py_div (100 * real_of_int removed_count) (real (length (measurements self))) of
        Inl e \<Rightarrow> Inl e
      | Inr removed_pct \<Rightarrow>
          Inr (\<lparr>name = name self @ '' (filtered)'', measurements = filtered\<rparr>,
               if removed_pct > 5 then [OutlierWarning (name self) removed_pct] else []))))"

text \<open>
  Python objects live in a store and are passed by reference. Here the store is the list
  of the \<^verbatim>\<open>BenchmarkResult\<close> objects allocated so far and a reference is an index into
  it. The body of \<^verbatim>\<open>remove_outliers\<close> assigns to no attribute of \<^verbatim>\<open>self\<close> and calls no
  mutating method of \<^verbatim>\<open>self.measurements\<close>; the constructor call allocates one new
  object, whose reference is returned. A reference held by a Python program denotes an
  allocated object, so the call is meaningful for \<open>self < length h\<close> only.
\<close>

type_synonym store = "BenchmarkResult list"

definition remove_outliers_call ::
  "store \<Rightarrow> nat \<Rightarrow> real \<Rightarrow> error + (store \<times> nat \<times> printed list)" where
  "remove_outliers_call h self threshold =
     (case remove_outliers (h ! self) threshold of
        Inl e \<Rightarrow> Inl e
      | Inr (r, out) \<Rightarrow> Inr (h @ [r], length h, out))"

section \<open>Speedup\<close>

text \<open>
  \<^verbatim>\<open>compute_speedup\<close>, the same text in both scripts. The properties are evaluated in
  the order of the source; a property read a second time gives the value of the first
  read.
\<close>

definition compute_speedup ::
  "BenchmarkResult \<Rightarrow> BenchmarkResult \<Rightarrow> error + (real \<times> real)" where
  "compute_speedup baseline optimized =
     (case mean baseline of Inl e \<Rightarrow> Inl e | Inr mb \<Rightarrow>
     (case mean optimized of Inl e \<Rightarrow> Inl e | Inr mo \<Rightarrow>
     (case py_div mb mo of Inl e \<Rightarrow> Inl e | Inr s \<Rightarrow>
     (case stdev baseline of Inl e \<Rightarrow> Inl e | Inr sb \<Rightarrow>
     (case py_div sb (mb * sqrt (real (length (measurements baseline)))) of
        Inl e \<Rightarrow> Inl e | Inr rel_err_base \<Rightarrow>
     (case stdev optimized of Inl e \<Rightarrow> Inl e | Inr so \<Rightarrow>
     (case py_div so (mo * sqrt (real (length (measurements optimized)))) of
        Inl e \<Rightarrow> Inl e | Inr rel_err_opt \<Rightarrow>
     (let delta_s = s * sqrt (rel_err_base\<^sup>2 + rel_err_opt\<^sup>2)
      in Inr (s, delta_s)))))))))"

section \<open>Validity gate\<close>

text \<open>
  \<^verbatim>\<open>validate_experiment\<close> takes a \<^verbatim>\<open>dict\<close> from names to results, read in insertion
  order by \<^verbatim>\<open>items()\<close>: an association list. Its two loops carry the flag
  \<^verbatim>\<open>all_valid\<close>. The demo script runs the same two loops inside its \<^verbatim>\<open>main\<close>.
\<close>

fun stability_loop ::
  "(string \<times> BenchmarkResult) list \<Rightarrow> bool \<Rightarrow> printed list \<Rightarrow> error + (bool \<times> printed list)" where
  "stability_loop [] all_valid out = Inr (all_valid, out)"
| "stability_loop ((nm, result) # rest) all_valid out =
     (case cv result of
        Inl e \<Rightarrow> Inl e
      | Inr c \<Rightarrow>
          stability_loop rest (if c \<ge> 10 then False else all_valid)
            (out @ [StabilityLine (c < 10) nm c]))"

fun precision_loop ::
  "(string \<times> BenchmarkResult) list \<Rightarrow> bool \<Rightarrow> printed list \<Rightarrow> error + (bool \<times> printed list)" where
  "precision_loop [] all_valid out = Inr (all_valid, out)"
| "precision_loop ((nm, result) # rest) all_valid out =
     (let n = length (measurements result) in
      case stdev result of
        Inl e \<Rightarrow> Inl e
      | Inr sd \<Rightarrow>
     (case mean result of
        Inl e \<Rightarrow> Inl e
      | Inr m \<Rightarrow>
     (case py_div (100 * 1.96 * sd) (sqrt (real n) * m) of
        Inl e \<Rightarrow> Inl e
      | Inr relative_error \<Rightarrow>
          precision_loop rest (if relative_error \<ge> 1 then False else all_valid)
            (out @ [PrecisionLine (relative_error < 1) nm relative_error]))))"

definition validate_experiment ::
  "(string \<times> BenchmarkResult) list \<Rightarrow> error + (bool \<times> printed list)" where
  "validate_experiment results =
     (case stability_loop results True [] of
        Inl e \<Rightarrow> Inl e
      | Inr (v1, out1) \<Rightarrow>
     (case precision_loop results v1 out1 of
        Inl e \<Rightarrow> Inl e
      | Inr (all_valid, out2) \<Rightarrow> Inr (all_valid, out2 @ [Verdict all_valid])))"

section \<open>Measurement acquisition\<close>

text \<open>
  \<^verbatim>\<open>run_benchmark\<close> starts the binary with \<^verbatim>\<open>subprocess.run(..., check=True)\<close>. The
  outside world is a function \<open>world\<close>: the \<open>k\<close>-th start of the binary ends with exit
  status \<open>returncode (world k)\<close> and standard output \<open>stdout (world k)\<close>. With
  \<^verbatim>\<open>check=True\<close> a non-zero status raises \<^verbatim>\<open>CalledProcessError\<close>. The progress lines
  that the function prints are left out.

  A character is a code point below 256. \<open>splitlines\<close> is \<^verbatim>\<open>str.splitlines()\<close> and
  \<open>split\<close> is \<^verbatim>\<open>str.split()\<close> without arguments, on these characters; \<open>contains\<close> is
  the substring test \<^verbatim>\<open>in\<close>. The builtin \<^verbatim>\<open>float\<close> applied to a string is the parameter
  \<open>to_float\<close>, which gives \<open>None\<close> where \<^verbatim>\<open>float\<close> raises \<^verbatim>\<open>ValueError\<close>.
\<close>

record completed =
  returncode :: int
  stdout :: string

definition is_linebreak :: "char \<Rightarrow> bool" where
  "is_linebreak c \<longleftrightarrow>
     c \<in> {CHR 0x0A, CHR 0x0B, CHR 0x0C, CHR 0x0D, CHR 0x1C, CHR 0x1D, CHR 0x1E, CHR 0x85}"

definition is_space :: "char \<Rightarrow> bool" where
  "is_space c \<longleftrightarrow>
     c \<in> {CHR 0x09, CHR 0x0A, CHR 0x0B, CHR 0x0C, CHR 0x0D, CHR 0x1C, CHR 0x1D, CHR 0x1E,
          CHR 0x1F, CHR 0x20, CHR 0x85, CHR 0xA0}"

fun splitlines_from :: "string \<Rightarrow> string \<Rightarrow> string list" where
  "splitlines_from cur [] = (if cur = [] then [] else [cur])"
| "splitlines_from cur (c # cs) =
     (if c = CHR 0x0D \<and> cs \<noteq> [] \<and> hd cs = CHR 0x0A then cur # splitlines_from [] (tl cs)
      else if is_linebreak c then cur # splitlines_from [] cs
      else splitlines_from (cur @ [c]) cs)"

definition splitlines :: "string \<Rightarrow> string list" where
  "splitlines s = splitlines_from [] s"

fun split_from :: "string \<Rightarrow> string \<Rightarrow> string list" where
  "split_from cur [] = (if cur = [] then [] else [cur])"
| "split_from cur (c # cs) =
     (if is_space c then (if cur = [] then split_from [] cs else cur # split_from [] cs)
      else split_from (cur @ [c]) cs)"

definition split :: "string \<Rightarrow> string list" where
  "split s = split_from [] s"

fun contains :: "string \<Rightarrow> string \<Rightarrow> bool" where
  "contains sub [] \<longleftrightarrow> sub = []"
| "contains sub (c # cs) \<longleftrightarrow> take (length sub) (c # cs) = sub \<or> contains sub cs"

text \<open>
  The inner loop over the lines of one output: the first line that contains the marker
  is split, its second token converted and appended to the list \<^verbatim>\<open>measurements\<close> (here
  \<open>ms\<close>), and the loop left by \<^verbatim>\<open>break\<close>.
  The \<^verbatim>\<open>for\<close> statement has no \<^verbatim>\<open>else\<close> branch: when no line contains the marker the
  loop ends and nothing is appended.
\<close>

fun scan_lines :: "(string \<Rightarrow> real option) \<Rightarrow> string list \<Rightarrow> real list \<Rightarrow> error + real list" where
  "scan_lines to_float [] ms = Inr ms"
| "scan_lines to_float (line # rest) ms =
     (if contains ''KeyGen:'' line then
        (let parts = split line in
         if length parts < 2 then Inl IndexError
         else
           (case to_float (parts ! 1) of
              None \<Rightarrow> Inl ValueError
            | Some time_us \<Rightarrow> Inr (ms @ [time_us])))
      else scan_lines to_float rest ms)"

text \<open>The warmup loop; it returns the number of starts made so far.\<close>

fun warmup_loop :: "(nat \<Rightarrow> completed) \<Rightarrow> nat \<Rightarrow> nat \<Rightarrow> error + nat" where
  "warmup_loop world k 0 = Inr k"
| "warmup_loop world k (Suc w) =
     (if returncode (world k) \<noteq> 0 then Inl CalledProcessError
      else warmup_loop world (Suc k) w)"

text \<open>The measurement loop: \<open>i\<close> iterations are left, \<open>k\<close> starts were made.\<close>

fun measure_loop ::
  "(nat \<Rightarrow> completed) \<Rightarrow> (string \<Rightarrow> real option) \<Rightarrow> nat \<Rightarrow> nat \<Rightarrow> real list \<Rightarrow> error + real list" where
  "measure_loop world to_float k 0 ms = Inr ms"
| "measure_loop world to_float k (Suc i) ms =
     (if returncode (world k) \<noteq> 0 then Inl CalledProcessError
      else
        (case scan_lines to_float (splitlines (stdout (world k))) ms of
           Inl e \<Rightarrow> Inl e
         | Inr ms' \<Rightarrow> measure_loop world to_float (Suc k) i ms'))"

definition run_benchmark ::
  "(nat \<Rightarrow> completed) \<Rightarrow> (string \<Rightarrow> real option) \<Rightarrow> nat \<Rightarrow> nat \<Rightarrow> error + real list" where
  "run_benchmark world to_float iterations warmup =
     (case warmup_loop world 0 warmup of
        Inl e \<Rightarrow> Inl e
      | Inr k \<Rightarrow> measure_loop world to_float k iterations [])"

section \<open>Double arithmetic\<close>

text \<open>
  A Python \<^verbatim>\<open>float\<close> is an IEEE 754 binary64 value: a finite number, an infinity or NaN.
  The sign of zero is not kept: it changes no comparison and no exception of the
  functions below.
\<close>

datatype double = Fin real | PInf | NInf | NaN


text \<open>
  Rounding to nearest, ties to even. \<open>round_even\<close> rounds a real to an integer.
  \<open>round_double x\<close> is the double nearest to \<open>x\<close>: with \<open>e\<close> the binary exponent of
  \<open>x\<close> (at least \<open>-1022\<close>, below which doubles are subnormal), the doubles around \<open>x\<close> are
  the integer multiples of \<open>2 powi (e - 52)\<close>; a result of magnitude \<open>2 ^ 1024\<close> or more
  is an infinity.
\<close>

definition round_even :: "real \<Rightarrow> int" where
  "round_even y =
     (let f = \<lfloor>y\<rfloor>; d = y - of_int f
      in if d < 1 / 2 then f
         else if 1 / 2 < d then f + 1
         else if even f then f else f + 1)"

definition round_double :: "real \<Rightarrow> double" where
  "round_double x =
     (if x = 0 then Fin 0
      else
        (let e = max \<lfloor>log 2 \<bar>x\<bar>\<rfloor> (- 1022);
             q = 2 powi (e - 52);
             r = of_int (round_even (x / q)) * q
         in if 2 ^ 1024 \<le> \<bar>r\<bar> then (if 0 < x then PInf else NInf) else Fin r))"

text \<open>
  The operations \<^verbatim>\<open>*\<close>, \<^verbatim>\<open>-\<close>, \<^verbatim>\<open>abs\<close>, \<^verbatim>\<open>/\<close> and the comparisons of Python floats:
  the exact result, rounded; the IEEE results on infinities and NaN; every comparison
  with NaN is false; \<^verbatim>\<open>/\<close> raises \<^verbatim>\<open>ZeroDivisionError\<close> on a zero divisor whatever the
  dividend.
\<close>

fun fmul :: "double \<Rightarrow> double \<Rightarrow> double" where
  "fmul NaN _ = NaN"
| "fmul _ NaN = NaN"
| "fmul (Fin a) (Fin b) = round_double (a * b)"
| "fmul (Fin a) PInf = (if a = 0 then NaN else if 0 < a then PInf else NInf)"
| "fmul (Fin a) NInf = (if a = 0 then NaN else if 0 < a then NInf else PInf)"
| "fmul PInf (Fin b) = (if b = 0 then NaN else if 0 < b then PInf else NInf)"
| "fmul NInf (Fin b) = (if b = 0 then NaN else if 0 < b then NInf else PInf)"
| "fmul PInf PInf = PInf"
| "fmul PInf NInf = NInf"
| "fmul NInf PInf = NInf"
| "fmul NInf NInf = PInf"



fun fdiv :: "double \<Rightarrow> double \<Rightarrow> error + double" where
  "fdiv a (Fin b) =
     (if b = 0 then Inl ZeroDivisionError
      else Inr (case a of
                  Fin x \<Rightarrow> round_double (x / b)
                | PInf \<Rightarrow> if 0 < b then PInf else NInf
                | NInf \<Rightarrow> if 0 < b then NInf else PInf
                | NaN \<Rightarrow> NaN))"
| "fdiv (Fin a) PInf = Inr (Fin 0)"
| "fdiv (Fin a) NInf = Inr (Fin 0)"
| "fdiv _ _ = Inr NaN"

fun flt :: "double \<Rightarrow> double \<Rightarrow> bool" where
  "flt NaN _ = False"
| "flt _ NaN = False"
| "flt (Fin a) (Fin b) = (a < b)"
| "flt _ NInf = False"
| "flt NInf _ = True"
| "flt PInf _ = False"
| "flt _ PInf = True"

fun fle :: "double \<Rightarrow> double \<Rightarrow> bool" where
  "fle NaN _ = False"
| "fle _ NaN = False"
| "fle (Fin a) (Fin b) = (a \<le> b)"
| "fle NInf _ = True"
| "fle _ PInf = True"
| "fle _ _ = False"

definition fgt :: "double \<Rightarrow> double \<Rightarrow> bool" where
  "fgt a b = flt b a"

definition fge :: "double \<Rightarrow> double \<Rightarrow> bool" where
  "fge a b = fle b a"

text \<open>
  \<^verbatim>\<open>math.sqrt\<close>: correctly rounded, \<^verbatim>\<open>ValueError\<close> on a negative argument.
\<close>

fun math_sqrt :: "double \<Rightarrow> error + double" where
  "math_sqrt (Fin a) = (if a < 0 then Inl ValueError else Inr (round_double (sqrt a)))"
| "math_sqrt PInf = Inr PInf"
| "math_sqrt NInf = Inl ValueError"
| "math_sqrt NaN = Inr NaN"

text \<open>The printed lines, with double values.\<close>

datatype printed_double =
    OutlierWarningD string double
  | StabilityLineD bool string double
  | PrecisionLineD bool string double
  | VerdictD bool

text \<open>
  \<^verbatim>\<open>statistics.mean\<close> and \<^verbatim>\<open>statistics.stdev\<close> (Python 3.11 and later) compute with exact
  fractions and round once at the end: the results are the exact mean and the exact
  sample standard deviation, rounded. The measurements are finite doubles, given by their
  real values. \<open>mean_double\<close>, \<open>stdev_double\<close> and \<open>cv_double\<close> are the properties
  \<^verbatim>\<open>mean\<close>, \<^verbatim>\<open>stdev\<close> and \<^verbatim>\<open>cv\<close> on doubles.
\<close>

definition mean_double :: "BenchmarkResult \<Rightarrow> error + double" where
  "mean_double self =
     (if measurements self = [] then Inl StatisticsError
      else Inr (round_double (arith_mean (measurements self))))"

definition stdev_double :: "BenchmarkResult \<Rightarrow> error + double" where
  "stdev_double self =
     (if length (measurements self) < 2 then Inl StatisticsError
      else Inr (round_double (sample_stdev (measurements self))))"

definition cv_double :: "BenchmarkResult \<Rightarrow> error + double" where
  "cv_double self =
     (case mean_double self of
        Inl e \<Rightarrow> Inl e
      | Inr m \<Rightarrow>
          if fgt m (Fin 0) then
            (case stdev_double self of
               Inl e \<Rightarrow> Inl e
             | Inr s \<Rightarrow> fdiv (fmul (Fin 100) s) m)
          else Inr (Fin 0))"


text \<open>
  \<^verbatim>\<open>validate_experiment\<close> on doubles. The status printed for a sample is computed with
  \<^verbatim>\<open><\<close>, the flag \<^verbatim>\<open>all_valid\<close> is cleared with \<^verbatim>\<open>>=\<close>. The literal \<^verbatim>\<open>1.96\<close> is the
  double nearest to \<open>1.96\<close>.
\<close>

fun stability_loop_double ::
  "(string \<times> BenchmarkResult) list \<Rightarrow> bool \<Rightarrow> printed_double list
     \<Rightarrow> error + (bool \<times> printed_double list)" where
  "stability_loop_double [] all_valid out = Inr (all_valid, out)"
| "stability_loop_double ((nm, result) # rest) all_valid out =
     (case cv_double result of
        Inl e \<Rightarrow> Inl e
      | Inr c \<Rightarrow>
          stability_loop_double rest (if fge c (Fin 10) then False else all_valid)
            (out @ [StabilityLineD (flt c (Fin 10)) nm c]))"

fun precision_loop_double ::
  "(string \<times> BenchmarkResult) list \<Rightarrow> bool \<Rightarrow> printed_double list
     \<Rightarrow> error + (bool \<times> printed_double list)" where
  "precision_loop_double [] all_valid out = Inr (all_valid, out)"
| "precision_loop_double ((nm, result) # rest) all_valid out =
     (let n = length (measurements result) in
      case stdev_double result of
        Inl e \<Rightarrow> Inl e
      | Inr sd \<Rightarrow>
     (case math_sqrt (round_double (real n)) of
        Inl e \<Rightarrow> Inl e
      | Inr root_n \<Rightarrow>
     (case mean_double result of
        Inl e \<Rightarrow> Inl e
      | Inr m \<Rightarrow>
     (case fdiv (fmul (fmul (Fin 100) (round_double 1.96)) sd) (fmul root_n m) of
        Inl e \<Rightarrow> Inl e
      | Inr relative_error \<Rightarrow>
          precision_loop_double rest (if fge relative_error (Fin 1) then False else all_valid)
            (out @ [PrecisionLineD (flt relative_error (Fin 1)) nm relative_error])))))"

definition validate_experiment_double ::
  "(string \<times> BenchmarkResult) list \<Rightarrow> error + (bool \<times> printed_double list)" where
  "validate_experiment_double results =
     (case stability_loop_double results True [] of
        Inl e \<Rightarrow> Inl e
      | Inr (v1, out1) \<Rightarrow>
     (case precision_loop_double results v1 out1 of
        Inl e \<Rightarrow> Inl e
      | Inr (all_valid, out2) \<Rightarrow> Inr (all_valid, out2 @ [VerdictD all_valid])))"

section \<open>Properties of the descriptive statistics\<close>

lemma mean_Inr:
  "measurements s \<noteq> [] \<Longrightarrow> mean s = Inr (arith_mean (measurements s))"
  by (simp add: mean_def statistics_mean_def)

lemma stdev_Inr:
  "2 \<le> length (measurements s) \<Longrightarrow> stdev s = Inr (sample_stdev (measurements s))"
  by (simp add: stdev_def statistics_stdev_def)


lemma sample_stdev_pair_same: "sample_stdev [a, a] = 0"
  by (simp add: sample_stdev_def sum_sq_dev_def arith_mean_def)

text \<open>
  Claim C6. On a sample with fewer than two measurements \<^verbatim>\<open>stdev\<close> raises
  \<^verbatim>\<open>StatisticsError\<close>, the library's error for insufficient data; it returns no value,
  in particular not zero.
\<close>

theorem stdev_insufficient_data:
  "length (measurements s) < 2 \<Longrightarrow> stdev s = Inl StatisticsError"
  by (simp add: stdev_def statistics_stdev_def)

theorem stdev_insufficient_data_witness:
  "stdev \<lparr>name = ''one'', measurements = [5]\<rparr> = Inl StatisticsError"
  using stdev_insufficient_data [of "\<lparr>name = ''one'', measurements = [5]\<rparr>"] by simp



section \<open>Properties of the confidence interval\<close>

text \<open>
  Claim C7. On a sample with exactly one measurement \<open>x\<close> (whose mean is \<open>x\<close>) the
  confidence interval is \<open>(x, x)\<close> for every confidence level, in both scripts and for
  every quantile function; nothing is raised.
\<close>

theorem confidence_interval_single:
  "measurements s = [x] \<Longrightarrow>
     mean s = Inr x
     \<and> confidence_interval t_ppf s confidence = Inr (x, x)
     \<and> confidence_interval_demo s confidence = Inr (x, x)"
  by (simp add: confidence_interval_def confidence_interval_demo_def mean_def
      statistics_mean_def arith_mean_def)

theorem confidence_interval_single_witness:
  "mean \<lparr>name = ''one'', measurements = [5]\<rparr> = Inr 5
   \<and> confidence_interval (\<lambda>p df. 0) \<lparr>name = ''one'', measurements = [5]\<rparr> (1 / 2) = Inr (5, 5)
   \<and> confidence_interval_demo \<lparr>name = ''one'', measurements = [5]\<rparr> (1 / 2) = Inr (5, 5)"
  using confidence_interval_single
    [of "\<lparr>name = ''one'', measurements = [5]\<rparr>" 5 "\<lambda>p df. 0" "1 / 2"]
  by simp

section \<open>Properties of the speedup\<close>



text \<open>
  For measurements that are not negative, as durations are, a mean that is zero or
  negative is zero.
\<close>

lemma arith_mean_nonneg:
  assumes "\<forall>x \<in> set xs. 0 \<le> x"
  shows "0 \<le> arith_mean xs"
  unfolding arith_mean_def using assms
  by (intro divide_nonneg_nonneg sum_list_nonneg) auto

lemma arith_mean_nonpos_zero:
  "\<forall>x \<in> set xs. 0 \<le> x \<Longrightarrow> arith_mean xs \<le> 0 \<Longrightarrow> arith_mean xs = 0"
  using arith_mean_nonneg [of xs] by simp

lemma compute_speedup_zero_mean:
  assumes "measurements baseline \<noteq> []" and "measurements optimized \<noteq> []"
    and "arith_mean (measurements optimized) = 0"
  shows "compute_speedup baseline optimized = Inl ZeroDivisionError"
  using assms by (simp add: compute_speedup_def mean_Inr py_div_def)

text \<open>
  Claim C5. A sample holds at least one measurement and no negative one. For a baseline
  and an optimized sample, \<^verbatim>\<open>compute_speedup\<close> raises \<^verbatim>\<open>ZeroDivisionError\<close> whenever
  the mean of the optimized sample is not positive; it then returns no ratio.
\<close>

theorem compute_speedup_requires_positive_mean:
  assumes "measurements baseline \<noteq> []" and "measurements optimized \<noteq> []"
    and "\<forall>x \<in> set (measurements optimized). 0 \<le> x"
    and "arith_mean (measurements optimized) \<le> 0"
  shows "compute_speedup baseline optimized = Inl ZeroDivisionError"
proof -
  from assms(3,4) have "arith_mean (measurements optimized) = 0"
    by (rule arith_mean_nonpos_zero)
  with assms(1,2) show ?thesis by (rule compute_speedup_zero_mean)
qed

theorem compute_speedup_requires_positive_mean_witness:
  "compute_speedup \<lparr>name = ''base'', measurements = [1, 3]\<rparr>
     \<lparr>name = ''opt'', measurements = [0, 0]\<rparr> = Inl ZeroDivisionError"
  using compute_speedup_requires_positive_mean
    [of "\<lparr>name = ''base'', measurements = [1, 3]\<rparr>"
      "\<lparr>name = ''opt'', measurements = [0, 0]\<rparr>"]
  by (simp add: arith_mean_def)

section \<open>Properties of the outlier filter\<close>

text \<open>
  On a sample with at least two measurements \<^verbatim>\<open>remove_outliers\<close> raises nothing and
  returns the object built from the filtered list.
\<close>

lemma remove_outliers_Inr:
  assumes n: "2 \<le> length (measurements s)"
  shows "\<exists>out. remove_outliers s threshold =
     Inr (\<lparr>name = name s @ '' (filtered)'',
           measurements = filter (\<lambda>t. \<bar>t - arith_mean (measurements s)\<bar>
                                    \<le> threshold * sample_stdev (measurements s))
                            (measurements s)\<rparr>, out)"
proof -
  from n have ne: "measurements s \<noteq> []" by auto
  show ?thesis
    using ne by (simp add: remove_outliers_def mean_Inr [OF ne] stdev_Inr [OF n] py_div_def Let_def)
qed

text \<open>A sample with mean \<open>5\<close> and standard deviation \<open>2\<close>, and the filter on it.\<close>

lemma arith_mean_4844: "arith_mean [4, 8, 4, 4] = 5"
  by (simp add: arith_mean_def)

lemma sample_stdev_4844: "sample_stdev [4, 8, 4, 4] = 2"
  by (simp add: sample_stdev_def sum_sq_dev_def arith_mean_4844)

lemma remove_outliers_4844:
  "remove_outliers \<lparr>name = ''a'', measurements = [4, 8, 4, 4]\<rparr> 1 =
     Inr (\<lparr>name = ''a (filtered)'', measurements = [4, 4, 4]\<rparr>, [OutlierWarning ''a'' 25])"
  by (simp add: remove_outliers_def mean_def stdev_def statistics_mean_def statistics_stdev_def
      arith_mean_4844 sample_stdev_4844 py_div_def)



text \<open>
  Claim C9. A call of \<^verbatim>\<open>remove_outliers\<close> on the object at reference \<open>self\<close>, with at
  least two measurements, returns the reference of a new object whose name is the
  input's name followed by \<open>'' (filtered)''\<close>; every object that existed before the
  call, the input among them, has the name and the measurements it had.
\<close>

theorem remove_outliers_call_frame:
  assumes "self < length h" and "2 \<le> length (measurements (h ! self))"
  shows "\<exists>h' out. remove_outliers_call h self threshold = Inr (h', length h, out)
     \<and> length h' = Suc (length h)
     \<and> name (h' ! length h) = name (h ! self) @ '' (filtered)''
     \<and> (\<forall>a < length h. h' ! a = h ! a)
     \<and> name (h' ! self) = name (h ! self)
     \<and> measurements (h' ! self) = measurements (h ! self)"
proof -
  from remove_outliers_Inr [OF assms(2), of threshold] obtain r out where
    r: "remove_outliers (h ! self) threshold = Inr (r, out)"
      "name r = name (h ! self) @ '' (filtered)''" by auto
  show ?thesis
    using assms(1) r by (simp add: remove_outliers_call_def nth_append)
qed

theorem remove_outliers_call_frame_witness:
  "\<exists>h' out. remove_outliers_call [\<lparr>name = ''a'', measurements = [4, 8, 4, 4]\<rparr>] 0 1
       = Inr (h', 1, out)
     \<and> name (h' ! 1) = ''a (filtered)''
     \<and> h' ! 0 = \<lparr>name = ''a'', measurements = [4, 8, 4, 4]\<rparr>"
  using remove_outliers_call_frame [of 0 "[\<lparr>name = ''a'', measurements = [4, 8, 4, 4]\<rparr>]" 1]
  by simp blast






section \<open>Properties of the validity gate\<close>

lemma cv_Inr:
  assumes "2 \<le> length (measurements s)" and "0 < arith_mean (measurements s)"
  shows "cv s = Inr (100 * sample_stdev (measurements s) / arith_mean (measurements s))"
proof -
  from assms(1) have ne: "measurements s \<noteq> []" by auto
  show ?thesis using assms(2) by (simp add: cv_def mean_Inr [OF ne] stdev_Inr [OF assms(1)])
qed

text \<open>
  The loops as folds over the collection: each conjoins its criterion to the flag.
\<close>

lemma stability_loop_result:
  assumes "\<forall>(nm, r) \<in> set rs. 2 \<le> length (measurements r) \<and> 0 < arith_mean (measurements r)"
  shows "\<exists>out'. stability_loop rs all_valid out =
     Inr (all_valid \<and> (\<forall>(nm, r) \<in> set rs.
            100 * sample_stdev (measurements r) / arith_mean (measurements r) < 10), out')"
  using assms
proof (induction rs arbitrary: all_valid out)
  case Nil
  then show ?case by simp
next
  case (Cons p rs)
  obtain nm r where p: "p = (nm, r)" by (cases p)
  from Cons.prems p have r: "2 \<le> length (measurements r)" "0 < arith_mean (measurements r)"
    and rest: "\<forall>(nm, r) \<in> set rs. 2 \<le> length (measurements r) \<and> 0 < arith_mean (measurements r)"
    by auto
  define c where "c = 100 * sample_stdev (measurements r) / arith_mean (measurements r)"
  have step: "stability_loop (p # rs) all_valid out =
      stability_loop rs (all_valid \<and> c < 10) (out @ [StabilityLine (c < 10) nm c])"
    by (simp add: p cv_Inr [OF r] c_def not_le)
  from Cons.IH [OF rest] obtain out' where
    "stability_loop rs (all_valid \<and> c < 10) (out @ [StabilityLine (c < 10) nm c]) =
     Inr ((all_valid \<and> c < 10) \<and> (\<forall>(nm, r) \<in> set rs.
            100 * sample_stdev (measurements r) / arith_mean (measurements r) < 10), out')" ..
  with step have "stability_loop (p # rs) all_valid out =
     Inr (all_valid \<and> (\<forall>(nm, r) \<in> set (p # rs).
            100 * sample_stdev (measurements r) / arith_mean (measurements r) < 10), out')"
    by (simp add: p c_def)
  then show ?case ..
qed

lemma precision_loop_result:
  assumes "\<forall>(nm, r) \<in> set rs. 2 \<le> length (measurements r) \<and> 0 < arith_mean (measurements r)"
  shows "\<exists>out'. precision_loop rs all_valid out =
     Inr (all_valid \<and> (\<forall>(nm, r) \<in> set rs.
            100 * 1.96 * sample_stdev (measurements r)
              / (sqrt (real (length (measurements r))) * arith_mean (measurements r)) < 1), out')"
  using assms
proof (induction rs arbitrary: all_valid out)
  case Nil
  then show ?case by simp
next
  case (Cons p rs)
  obtain nm r where p: "p = (nm, r)" by (cases p)
  from Cons.prems p have r: "2 \<le> length (measurements r)" "0 < arith_mean (measurements r)"
    and rest: "\<forall>(nm, r) \<in> set rs. 2 \<le> length (measurements r) \<and> 0 < arith_mean (measurements r)"
    by auto
  from r(1) have ne: "measurements r \<noteq> []" by auto
  define d where "d = 100 * 1.96 * sample_stdev (measurements r)
              / (sqrt (real (length (measurements r))) * arith_mean (measurements r))"
  have nz: "sqrt (real (length (measurements r))) * arith_mean (measurements r) \<noteq> 0"
    using r ne by simp
  have step: "precision_loop (p # rs) all_valid out =
      precision_loop rs (all_valid \<and> d < 1) (out @ [PrecisionLine (d < 1) nm d])"
    using nz by (simp add: p mean_Inr [OF ne] stdev_Inr [OF r(1)] py_div_def d_def not_le Let_def)
  from Cons.IH [OF rest] obtain out' where
    "precision_loop rs (all_valid \<and> d < 1) (out @ [PrecisionLine (d < 1) nm d]) =
     Inr ((all_valid \<and> d < 1) \<and> (\<forall>(nm, r) \<in> set rs.
            100 * 1.96 * sample_stdev (measurements r)
              / (sqrt (real (length (measurements r))) * arith_mean (measurements r)) < 1), out')" ..
  with step have "precision_loop (p # rs) all_valid out =
     Inr (all_valid \<and> (\<forall>(nm, r) \<in> set (p # rs).
            100 * 1.96 * sample_stdev (measurements r)
              / (sqrt (real (length (measurements r))) * arith_mean (measurements r)) < 1), out')"
    by (simp add: p d_def)
  then show ?case ..
qed

lemma arith_mean_1000_1001: "arith_mean [1000, 1001] = 2001 / 2"
  by (simp add: arith_mean_def)

lemma sample_stdev_1000_1001: "sample_stdev [1000, 1001] = sqrt (1 / 2)"
  by (simp add: sample_stdev_def sum_sq_dev_def arith_mean_1000_1001 power2_eq_square)

lemma cv_1000_1001: "cv \<lparr>name = ''a'', measurements = [1000, 1001]\<rparr> = Inr (100 * sqrt (1 / 2) / (2001 / 2))"
  by (simp add: cv_def mean_def stdev_def statistics_mean_def statistics_stdev_def
      arith_mean_1000_1001 sample_stdev_1000_1001)

lemma sqrt_half_le_1: "sqrt (1 / 2) \<le> 1"
  using real_sqrt_le_mono [of "1 / 2" 1] by simp

lemma sqrt_half_sqrt2: "sqrt (1 / 2) / sqrt 2 = 1 / 2"
  by (simp add: real_sqrt_divide)

text \<open>
  In exact arithmetic the tests \<open>x < c\<close> and \<open>x \<ge> c\<close> exclude each other and one of
  them holds. There, for a collection of samples with at least two measurements and a
  positive mean each, \<^verbatim>\<open>validate_experiment\<close> returns \<open>True\<close> if and only if every
  sample of the collection has \<open>cv < 10\<close> and
  \<open>100 * 1.96 * stdev / (sqrt n * mean) < 1\<close>. On doubles this fails when a value is
  NaN: see the section on double arithmetic.
\<close>

lemma validate_experiment_exact:
  assumes ok: "\<forall>(nm, r) \<in> set results.
      2 \<le> length (measurements r) \<and> 0 < arith_mean (measurements r)"
  shows "\<exists>out. validate_experiment results =
     Inr ((\<forall>(nm, r) \<in> set results.
            (\<exists>c. cv r = Inr c \<and> c < 10)
          \<and> 100 * 1.96 * sample_stdev (measurements r)
              / (sqrt (real (length (measurements r))) * arith_mean (measurements r)) < 1), out)"
proof -
  from stability_loop_result [OF ok] obtain out1 where
    s: "stability_loop results True [] =
     Inr (True \<and> (\<forall>(nm, r) \<in> set results.
            100 * sample_stdev (measurements r) / arith_mean (measurements r) < 10), out1)" ..
  let ?v1 = "\<forall>(nm, r) \<in> set results.
            100 * sample_stdev (measurements r) / arith_mean (measurements r) < 10"
  from precision_loop_result [OF ok] obtain out2 where
    p: "precision_loop results ?v1 out1 =
     Inr (?v1 \<and> (\<forall>(nm, r) \<in> set results.
            100 * 1.96 * sample_stdev (measurements r)
              / (sqrt (real (length (measurements r))) * arith_mean (measurements r)) < 1), out2)" ..
  have pt: "(\<exists>c. cv r = Inr c \<and> c < 10) \<longleftrightarrow>
      100 * sample_stdev (measurements r) / arith_mean (measurements r) < 10"
    if "(nm, r) \<in> set results" for nm r
  proof -
    from ok that have "2 \<le> length (measurements r)" "0 < arith_mean (measurements r)"
      by auto
    from cv_Inr [OF this] show ?thesis by simp
  qed
  have eq: "(\<forall>(nm, r) \<in> set results.
            (\<exists>c. cv r = Inr c \<and> c < 10)
          \<and> 100 * 1.96 * sample_stdev (measurements r)
              / (sqrt (real (length (measurements r))) * arith_mean (measurements r)) < 1)
     \<longleftrightarrow> (?v1 \<and> (\<forall>(nm, r) \<in> set results.
            100 * 1.96 * sample_stdev (measurements r)
              / (sqrt (real (length (measurements r))) * arith_mean (measurements r)) < 1))"
    using pt by fastforce
  show ?thesis
    unfolding eq by (simp add: validate_experiment_def s p)
qed

lemma validate_experiment_exact_examples:
  "(\<exists>out. validate_experiment [(''a'', \<lparr>name = ''a'', measurements = [1000, 1001]\<rparr>)]
      = Inr (True, out))
   \<and> (\<exists>out. validate_experiment [(''b'', \<lparr>name = ''b'', measurements = [4, 4]\<rparr>),
        (''c'', \<lparr>name = ''c'', measurements = [4, 8, 4, 4]\<rparr>)] = Inr (False, out))"
proof -
  have a: "100 * sqrt (1 / 2) / (2001 / 2) < (10::real)"
  proof -
    have "20 * sqrt (1 / 2) < (2001::real)" using sqrt_half_le_1 by linarith
    then show ?thesis by simp
  qed
  have b: "100 * 1.96 * sqrt (1 / 2) / (sqrt (real (length [1000, 1001 :: real])) * (2001 / 2)) < 1"
  proof -
    have "sqrt 2 * (sqrt 2 * 2001) = (sqrt 2 * sqrt 2) * (2001::real)"
      by (simp only: mult.assoc)
    also have "\<dots> = 4002" by simp
    finally have s2: "sqrt 2 * (sqrt 2 * 2001) = (4002::real)" .
    have "392 < sqrt 2 * (sqrt 2 * (2001::real))" by (simp only: s2)
    then show ?thesis by (simp add: real_sqrt_divide)
  qed
  have e: "\<exists>c. cv \<lparr>name = ''a'', measurements = [1000, 1001]\<rparr> = Inr c \<and> c < 10"
    using a cv_1000_1001 by blast
  have pass: "\<exists>out. validate_experiment
      [(''a'', \<lparr>name = ''a'', measurements = [1000, 1001]\<rparr>)] = Inr (True, out)"
    using validate_experiment_exact
      [of "[(''a'', \<lparr>name = ''a'', measurements = [1000, 1001]\<rparr>)]"] e b
    by (simp add: arith_mean_1000_1001 sample_stdev_1000_1001)
  have fail: "\<exists>out. validate_experiment [(''b'', \<lparr>name = ''b'', measurements = [4, 4]\<rparr>),
        (''c'', \<lparr>name = ''c'', measurements = [4, 8, 4, 4]\<rparr>)] = Inr (False, out)"
    using validate_experiment_exact [of "[(''b'', \<lparr>name = ''b'', measurements = [4, 4]\<rparr>),
        (''c'', \<lparr>name = ''c'', measurements = [4, 8, 4, 4]\<rparr>)]"]
    by (simp add: arith_mean_4844 sample_stdev_4844 sample_stdev_pair_same arith_mean_def
        cv_def mean_def stdev_def statistics_mean_def statistics_stdev_def)
  from pass fail show ?thesis by (rule conjI)
qed

section \<open>Properties of the measurement acquisition\<close>

text \<open>
  An output without a marker line leaves the measurements as they are, and the
  measurement loop goes on to the next iteration. A marker line whose second token is
  not a number ends the scan, and with it the loop, by \<^verbatim>\<open>ValueError\<close>. Each iteration
  appends at most one measurement.
\<close>

lemma scan_lines_no_marker:
  "\<forall>line \<in> set lines. \<not> contains ''KeyGen:'' line \<Longrightarrow> scan_lines to_float lines ms = Inr ms"
  by (induction lines) simp_all

lemma scan_lines_unparseable:
  assumes "\<forall>l \<in> set pre. \<not> contains ''KeyGen:'' l"
    and "contains ''KeyGen:'' line"
    and "2 \<le> length (split line)"
    and "to_float (split line ! 1) = None"
  shows "scan_lines to_float (pre @ line # rest) ms = Inl ValueError"
  using assms by (induction pre) (simp_all add: Let_def)

lemma measure_loop_no_marker:
  assumes "returncode (world k) = 0"
    and "\<forall>line \<in> set (splitlines (stdout (world k))). \<not> contains ''KeyGen:'' line"
  shows "measure_loop world to_float k (Suc i) ms = measure_loop world to_float (Suc k) i ms"
  using assms by (simp add: scan_lines_no_marker)

lemma measure_loop_scan_error:
  assumes "returncode (world k) = 0"
    and "scan_lines to_float (splitlines (stdout (world k))) ms = Inl e"
  shows "measure_loop world to_float k (Suc i) ms = Inl e"
  using assms by simp

lemma scan_lines_length:
  "scan_lines to_float lines ms = Inr ms' \<Longrightarrow> length ms' \<le> Suc (length ms)"
  by (induction lines) (auto simp: Let_def split: if_splits option.splits)

lemma run_benchmark_unparseable:
  "run_benchmark
     (\<lambda>k. if k = 0 then \<lparr>returncode = 0, stdout = ''KeyGen: 12.5 us''\<rparr>
          else \<lparr>returncode = 0, stdout = ''KeyGen: fast''\<rparr>)
     (\<lambda>s. if s = ''12.5'' then Some 12.5 else None) 2 0 = Inl ValueError"
  by (simp add: run_benchmark_def numeral_2_eq_2 splitlines_def split_def is_linebreak_def
      is_space_def)

text \<open>
  Claim C4 says that a timed run whose output has no marker line aborts the acquisition
  with a parse error. Here the first of two timed runs prints \<open>''hello''\<close> and the
  second prints a marker line: \<^verbatim>\<open>run_benchmark\<close> raises nothing and returns the one
  measurement of the second run, a sequence shorter than the number of iterations.
\<close>

theorem run_benchmark_missing_marker:
  "run_benchmark
     (\<lambda>k. if k = 0 then \<lparr>returncode = 0, stdout = ''hello''\<rparr>
          else \<lparr>returncode = 0, stdout = ''KeyGen: 12.5 us''\<rparr>)
     (\<lambda>s. if s = ''12.5'' then Some 12.5 else None) 2 0 = Inr [12.5]"
  by (simp add: run_benchmark_def numeral_2_eq_2 splitlines_def split_def is_linebreak_def
      is_space_def)

section \<open>Properties under double arithmetic\<close>

subsection \<open>Evaluating the rounding\<close>

text \<open>
  \<open>round_double_at\<close> evaluates the rounding of \<open>x\<close> from its binary exponent \<open>e\<close>, the
  quantum \<open>q = 2 powi (e - 52)\<close> and the integer \<open>k\<close> nearest to \<open>x / q\<close>;
  \<open>round_double_sqrt\<close> does the same for a square root, from bounds on the squares;
  \<open>round_double_overflow\<close>: a value of \<open>2 ^ 1024\<close> or more rounds to infinity.
\<close>

lemma round_even_eq:
  assumes "of_int k - 1 / 2 < y" and "y < of_int k + 1 / 2"
  shows "round_even y = k"
proof -
  have "\<lfloor>y\<rfloor> = k \<or> \<lfloor>y\<rfloor> = k - 1" using assms by linarith
  then show ?thesis
  proof
    assume f: "\<lfloor>y\<rfloor> = k"
    with assms show ?thesis by (simp add: round_even_def Let_def)
  next
    assume f: "\<lfloor>y\<rfloor> = k - 1"
    with assms show ?thesis by (simp add: round_even_def Let_def)
  qed
qed

lemma round_even_of_int [simp]: "round_even (of_int k) = k"
  by (rule round_even_eq) simp_all

lemma floor_log2:
  fixes x :: real
  assumes "2 powi e \<le> \<bar>x\<bar>" and "\<bar>x\<bar> < 2 powi (e + 1)"
  shows "\<lfloor>log 2 \<bar>x\<bar>\<rfloor> = e"
proof -
  have "(0::real) < 2 powi e" by simp
  with assms(1) have pos: "0 < \<bar>x\<bar>" by linarith
  have p: "(2::real) powr real_of_int k = 2 powi k" for k :: int
    by (rule powr_real_of_int') simp_all
  have "2 powr real_of_int e \<le> \<bar>x\<bar>" using assms(1) by (simp only: p)
  moreover have "\<bar>x\<bar> < 2 powr real_of_int (e + 1)" using assms(2) by (simp only: p)
  ultimately show ?thesis
    using pos by (simp add: floor_log_eq_powr_iff)
qed

lemma round_double_at:
  fixes x r q :: real
  assumes "q = 2 powi (e - 52)"
    and "2 powi e \<le> \<bar>x\<bar>" and "\<bar>x\<bar> < 2 powi (e + 1)" and "- 1022 \<le> e"
    and "round_even (x / q) = k"
    and "r = of_int k * q"
    and "\<bar>r\<bar> < 2 ^ 1024"
  shows "round_double x = Fin r"
proof -
  have "(0::real) < 2 powi e" by simp
  with assms(2) have "0 < \<bar>x\<bar>" by linarith
  then have "x \<noteq> 0" by simp
  moreover have "max \<lfloor>log 2 \<bar>x\<bar>\<rfloor> (- 1022) = e"
    using floor_log2 [OF assms(2,3)] assms(4) by simp
  moreover from assms(1,5,6)
  have "real_of_int (round_even (x / 2 powi (e - 52))) * 2 powi (e - 52) = r" by simp
  ultimately show ?thesis
    using assms(7) by (simp add: round_double_def Let_def)
qed

lemma round_double_2: "round_double 2 = Fin 2"
  by (rule round_double_at [of "1 / 2 ^ 51" 1 _ "2 ^ 52"]) (simp_all add: power_int_minus_divide round_even_eq)


lemma round_even_ge:
  assumes "of_int n \<le> y"
  shows "n \<le> round_even y"
proof -
  from assms have "n \<le> \<lfloor>y\<rfloor>" by (simp add: le_floor_iff)
  moreover have "\<lfloor>y\<rfloor> \<le> round_even y" by (simp add: round_even_def Let_def)
  ultimately show ?thesis by simp
qed

lemma round_double_overflow:
  assumes "2 ^ 1024 \<le> x"
  shows "round_double x = PInf"
proof -
  define e where "e = \<lfloor>log 2 \<bar>x\<bar>\<rfloor>"
  define q :: real where "q = 2 powi (e - 52)"
  have x: "0 < x" "\<bar>x\<bar> = x" using assms by (simp_all add: less_le_trans [of 0 "2 ^ 1024" x])
  have p: "(2::real) powr real_of_int k = 2 powi k" for k :: int
    by (rule powr_real_of_int') simp_all
  have "(2::real) powr 1024 \<le> x" using assms by simp
  then have "1024 \<le> log 2 x" using x by (simp add: le_log_iff)
  then have e: "1024 \<le> e" unfolding e_def x by (simp add: le_floor_iff)
  have "2 powr real_of_int e \<le> x"
    using x floor_log_eq_powr_iff [of x 2 e] by (simp add: e_def)
  then have le: "2 powi e \<le> x" by (simp only: p)
  have q: "0 < q" by (simp add: q_def)
  have eq: "2 powi e = 2 ^ 52 * q"
    by (simp add: q_def power_int_diff)
  from le have "2 ^ 52 \<le> x / q" using q by (simp add: eq pos_le_divide_eq)
  then have "real_of_int (2 ^ 52) \<le> x / q" by simp
  then have "2 ^ 52 \<le> round_even (x / q)" by (rule round_even_ge)
  then have "real_of_int (2 ^ 52) \<le> real_of_int (round_even (x / q))" by (simp only: of_int_le_iff)
  then have a: "2 ^ 52 * q \<le> real_of_int (round_even (x / q)) * q"
    using q by simp
  have "(2::real) ^ 1024 \<le> 2 powi e"
    using e power_int_increasing [of 1024 e "2::real"] by simp
  then have "2 ^ 1024 \<le> 2 ^ 52 * q" by (simp only: eq)
  then have "2 ^ 1024 \<le> real_of_int (round_even (x / q)) * q"
    using a by (rule order_trans)
  also have "\<dots> \<le> \<bar>real_of_int (round_even (x / q)) * q\<bar>" by (rule abs_ge_self)
  finally have big: "2 ^ 1024 \<le> \<bar>real_of_int (round_even (x / q)) * q\<bar>" .
  have big': "2 ^ 1024 \<le> \<bar>real_of_int (round_even (x / 2 powi (e - 52))) * 2 powi (e - 52)\<bar>"
    using big by (simp only: q_def)
  have "max e (- 1022) = e" using e by simp
  then show ?thesis
    using x big' unfolding round_double_def Let_def e_def [symmetric]
    by simp
qed

lemma round_double_sqrt:
  fixes A q r :: real
  assumes "q = 2 powi (e - 52)" and "- 1022 \<le> e"
    and "(2 ^ 52 * q)\<^sup>2 \<le> A" and "A < (2 ^ 53 * q)\<^sup>2"
    and "((of_int k - 1 / 2) * q)\<^sup>2 < A" and "A < ((of_int k + 1 / 2) * q)\<^sup>2"
    and "1 \<le> k"
    and "r = of_int k * q" and "\<bar>r\<bar> < 2 ^ 1024"
  shows "round_double (sqrt A) = Fin r"
proof -
  have q: "0 < q" by (simp add: assms(1))
  have e1: "2 powi e = 2 ^ 52 * q" by (simp add: assms(1) power_int_diff)
  have e2: "2 powi (e + 1) = 2 ^ 53 * q" by (simp add: assms(1) power_int_diff power_int_add)
  have A: "0 \<le> A" using assms(3) zero_le_power2 [of "2 ^ 52 * q"] by linarith
  then have s: "\<bar>sqrt A\<bar> = sqrt A" by simp
  have "2 ^ 52 * q \<le> sqrt A" using assms(3) by (rule real_le_rsqrt)
  then have b1: "2 powi e \<le> \<bar>sqrt A\<bar>" by (simp only: e1 s)
  have "sqrt A < 2 ^ 53 * q" using q assms(4) by (intro real_less_lsqrt) simp_all
  then have b2: "\<bar>sqrt A\<bar> < 2 powi (e + 1)" by (simp only: e2 s)
  have l: "(of_int k - 1 / 2) * q < sqrt A" using assms(5) by (rule real_less_rsqrt)
  have "0 \<le> (real_of_int k + 1 / 2) * q" using q assms(7) by simp
  then have u: "sqrt A < (of_int k + 1 / 2) * q" using assms(6) by (rule real_less_lsqrt)
  have "round_even (sqrt A / q) = k"
    using l u q by (intro round_even_eq) (simp_all add: pos_less_divide_eq pos_divide_less_eq)
  with assms(1) b1 b2 assms(2) show ?thesis
    using assms(8,9) by (rule round_double_at)
qed

subsection \<open>The outlier filter on doubles\<close>










subsection \<open>The validity gate on doubles\<close>

text \<open>
  The sample \<open>[381 * 2^1015, 387 * 2^1015]\<close> of two finite positive doubles: mean
  \<open>3 * 2^1022\<close>, standard deviation \<open>sqrt 18 * 2^1015\<close>. Its coefficient of variation is
  about \<open>1.1\<close>. In the precision criterion both \<open>100 * 1.96 * stdev\<close> and
  \<open>sqrt n * mean\<close> exceed the largest double and are infinite, and their quotient is NaN.
\<close>

lemma arith_mean_c2:
  "arith_mean [381 * 2 ^ 1015, 387 * 2 ^ 1015] = 3 * 2 ^ 1022"
  by (simp add: arith_mean_def)

lemma sample_stdev_c2:
  "sample_stdev [381 * 2 ^ 1015, 387 * 2 ^ 1015] = sqrt (18 * 2 ^ 2030)"
proof -
  have "sum_sq_dev [381 * 2 ^ 1015, 387 * 2 ^ 1015] = 18 * 2 ^ 2030"
    unfolding sum_sq_dev_def arith_mean_c2 by (simp add: power2_eq_square)
  moreover have "real (length [381 * 2 ^ 1015, 387 * 2 ^ 1015 :: real] - 1) = 1" by simp
  ultimately show ?thesis by (simp only: sample_stdev_def div_by_1)
qed

lemma round_double_mean_c2: "round_double (3 * 2 ^ 1022) = Fin (3 * 2 ^ 1022)"
  by (rule round_double_at [of "2 ^ 971" 1023 _ "3 * 2 ^ 51"]) (simp_all add: round_even_eq)

lemma round_double_stdev_c2:
  "round_double (sqrt (18 * 2 ^ 2030)) = Fin (4776788754394329 * 2 ^ 965)"
  by (rule round_double_sqrt [of "2 ^ 965" 1017 _ 4776788754394329])
    (simp_all add: power2_eq_square)

lemma round_double_100_stdev_c2:
  "round_double (100 * (4776788754394329 * 2 ^ 965)) = Fin (7463732428741139 * 2 ^ 971)"
  by (rule round_double_at [of "2 ^ 971" 1023 _ 7463732428741139]) (simp_all add: round_even_eq)

lemma round_double_cv_c2:
  "round_double (7463732428741139 * 2 ^ 971 / (3 * 2 ^ 1022)) = Fin (4975821619160759 / 2 ^ 52)"
  by (rule round_double_at [of "1 / 2 ^ 52" 0 _ 4975821619160759])
    (simp_all add: power_int_minus_divide round_even_eq)

lemma round_double_sqrt_2: "round_double (sqrt 2) = Fin (6369051672525773 / 2 ^ 52)"
  by (rule round_double_sqrt [of "1 / 2 ^ 52" 0 _ 6369051672525773])
    (simp_all add: power_int_minus_divide power2_eq_square)

lemma round_double_root_mean_c2:
  "round_double (6369051672525773 / 2 ^ 52 * (3 * 2 ^ 1022)) = PInf"
  by (rule round_double_overflow) simp

lemma round_double_196_100: "round_double 1.96 = Fin (8827055269646172 / 2 ^ 52)"
  by (rule round_double_at [of "1 / 2 ^ 52" 0 _ 8827055269646172])
    (simp_all add: power_int_minus_divide round_even_eq)

lemma round_double_196:
  "round_double (100 * (8827055269646172 / 2 ^ 52)) = Fin 196"
  by (rule round_double_at [of "1 / 2 ^ 45" 7 _ "196 * 2 ^ 45"])
    (simp_all add: power_int_minus_divide round_even_eq)

lemma round_double_196_stdev_c2:
  "round_double (196 * (4776788754394329 * 2 ^ 965)) = PInf"
  by (rule round_double_overflow) simp

text \<open>
  Claim C2 says that \<^verbatim>\<open>validate_experiment\<close> returns \<open>True\<close> only if every sample has a
  relative error below \<open>1\<close>. On this sample the relative error is NaN: the status
  computed with \<^verbatim>\<open>< 1.0\<close> is a failure (\<open>PrecisionLineD False\<close>), the test \<^verbatim>\<open>>= 1.0\<close>
  that clears \<^verbatim>\<open>all_valid\<close> is false as well, and the function returns \<open>True\<close>.
\<close>

theorem validate_experiment_double_nan:
  "validate_experiment_double
     [(''a'', \<lparr>name = ''a'', measurements = [381 * 2 ^ 1015, 387 * 2 ^ 1015]\<rparr>)]
   = Inr (True,
       [StabilityLineD True ''a'' (Fin (4975821619160759 / 2 ^ 52)),
        PrecisionLineD False ''a'' NaN,
        VerdictD True])"
proof -
  define r where "r = \<lparr>name = ''a'', measurements = [381 * 2 ^ 1015, 387 * 2 ^ 1015]\<rparr>"
  have ms: "measurements r = [381 * 2 ^ 1015, 387 * 2 ^ 1015]"
    by (simp only: r_def BenchmarkResult.select_convs)
  have len: "length (measurements r) = 2" by (simp add: r_def)
  have "round_double (arith_mean (measurements r)) = Fin (3 * 2 ^ 1022)"
    by (simp only: ms arith_mean_c2 round_double_mean_c2)
  then have m: "mean_double r = Inr (Fin (3 * 2 ^ 1022))"
    by (simp add: mean_double_def r_def)
  have "round_double (sample_stdev (measurements r)) = Fin (4776788754394329 * 2 ^ 965)"
    by (simp only: ms sample_stdev_c2 round_double_stdev_c2)
  then have sd: "stdev_double r = Inr (Fin (4776788754394329 * 2 ^ 965))"
    by (simp add: stdev_double_def len)
  have "validate_experiment_double [(''a'', r)]
   = Inr (True,
       [StabilityLineD True ''a'' (Fin (4975821619160759 / 2 ^ 52)),
        PrecisionLineD False ''a'' NaN,
        VerdictD True])"
    by (simp add: validate_experiment_double_def cv_double_def m sd len fgt_def fge_def
      round_double_100_stdev_c2 [simplified] round_double_cv_c2 [simplified]
      round_double_2 round_double_sqrt_2 [simplified] round_double_root_mean_c2 [simplified]
      round_double_196_100 [simplified] round_double_196 [simplified]
      round_double_196_stdev_c2 [simplified])
  then show ?thesis by (simp only: r_def)
qed

end
